theory Spec2Isabelle
  imports Main
begin

section \<open>The model details page of valor (web/src/model-details-page.tsx)\<close>

text \<open>
  The file holds one constant, \<open>columns\<close>, and one React function component,
  \<open>ModelDetailsPage\<close>. The component reads the route parameter \<open>name\<close>, keeps one
  state cell \<open>allEvalSettings\<close> (initially the empty array), computes a URL, registers
  an effect with the dependency array \<open>[url]\<close> that calls \<open>axios.get(url)\<close> and
  stores \<open>response.data\<close> in the state cell when the promise fulfils, and returns
  either \<open>null\<close> or a page with a heading and a data grid.

  The embedding has three layers:
  \<^item> the values that flow through the component (\<open>js_value\<close>), with JavaScript's
    truthiness, property access and string conversion written out;
  \<^item> the column table and the render function, translated line by line;
  \<^item> the hooks: the state cell, the dependency array of the effect and the promises in
    flight are a record, and rendering, fulfilment and rejection are the events of a
    step function.
\<close>

subsection \<open>JavaScript values\<close>

text \<open>
  \<open>response.data\<close> is whatever the HTTP client parsed; the annotation
  \<open>EvaluationSetting[]\<close> on the state cell is erased at run time. An object is its
  list of own properties, each key bound once.

  A number is given by the decimal numeral that identifies it, the shortest one that
  reads back as that number: \<open>JNum i\<close> is the integer \<open>i\<close>, and \<open>JDec m e\<close> is
  \<open>m\<close> times ten to the power \<open>e\<close>, for the numbers that are not integers (one half
  is \<open>JDec 5 (- 1)\<close>). These are the digits that JavaScript's conversion of a number
  to a string starts from; the rounding to binary floating point happened when the
  response was parsed, before the component saw the value, and is not modelled. So the
  floating-point number two to the power 60 is \<open>JNum 1152921504606847000\<close>, and a numeral
  with more than seventeen significant digits stands for no number. Both zeros are
  \<open>JNum 0\<close>. \<open>JNaN\<close> and \<open>JInfinity\<close> (with its sign) are the remaining numbers.
\<close>

datatype js_value =
    JUndefined
  | JNull
  | JBool bool
  | JNum int
  | JDec int int
  | JNaN
  | JInfinity bool
  | JStr string
  | JArr "js_value list"
  | JObj "(string \<times> js_value) list"

datatype js_error = TypeError

text \<open>\<open>!v\<close> is true exactly for the falsy values; arrays and objects are always truthy.\<close>

fun truthy :: "js_value \<Rightarrow> bool" where
  "truthy JUndefined = False"
| "truthy JNull = False"
| "truthy (JBool b) = b"
| "truthy (JNum i) = (i \<noteq> 0)"
| "truthy (JDec m e) = (m \<noteq> 0)"
| "truthy JNaN = False"
| "truthy (JInfinity negative) = True"
| "truthy (JStr s) = (s \<noteq> [])"
| "truthy (JArr xs) = True"
| "truthy (JObj kvs) = True"

text \<open>
  \<open>v.k\<close>: reading a property of \<open>null\<close> or \<open>undefined\<close> throws; an object
  yields the property or \<open>undefined\<close>; the other values have no property of the
  names used here.
\<close>

fun get_prop :: "js_value \<Rightarrow> string \<Rightarrow> js_error + js_value" where
  "get_prop JUndefined k = Inl TypeError"
| "get_prop JNull k = Inl TypeError"
| "get_prop (JObj kvs) k = (case map_of kvs k of None \<Rightarrow> Inr JUndefined | Some v \<Rightarrow> Inr v)"
| "get_prop v k = Inr JUndefined"

text \<open>The decimal digits of a non-negative integer.\<close>

fun digit_char :: "int \<Rightarrow> char" where
  "digit_char d = char_of (48 + d)"

function decimal :: "int \<Rightarrow> string" where
  "decimal i =
     (if i < 10 then [digit_char i] else decimal (i div 10) @ [digit_char (i mod 10)])"
  by pat_completeness auto
termination
  by (relation "measure nat") auto

declare decimal.simps [simp del]

text \<open>
  The string of the number \<open>m\<close> times ten to the power \<open>e\<close>, as ECMAScript's
  \<open>Number::toString\<close> lays it out. With \<open>ds\<close> the \<open>k\<close> significant digits (no
  trailing zero) and \<open>n\<close> the position of the decimal point counted from the first
  digit: the digits followed by zeros when \<open>k \<le> n \<le> 21\<close>; the digits with a point
  after the first \<open>n\<close> when \<open>0 < n \<le> 21\<close>; \<open>0.\<close>, zeros and the digits when
  \<open>-6 < n \<le> 0\<close>; and the exponent form otherwise, so that ten to the power 21 is
  \<open>1e+21\<close>.
\<close>

definition number_to_string :: "int \<Rightarrow> int \<Rightarrow> string" where
  "number_to_string m e =
     (if m = 0 then ''0''
      else
        let all_digits = decimal \<bar>m\<bar>;
            zeros = length (takeWhile (\<lambda>c. c = CHR ''0'') (rev all_digits));
            ds = take (length all_digits - zeros) all_digits;
            k = int (length ds);
            n = int (length all_digits) + e;
            body =
              (if k \<le> n \<and> n \<le> 21 then ds @ replicate (nat (n - k)) (CHR ''0'')
               else if 0 < n \<and> n \<le> 21 then take (nat n) ds @ ''.'' @ drop (nat n) ds
               else if - 6 < n \<and> n \<le> 0 then ''0.'' @ replicate (nat (- n)) (CHR ''0'') @ ds
               else
                 let ex = (if n - 1 < 0 then CHR ''-'' else CHR ''+'') # decimal \<bar>n - 1\<bar>
                 in if k = 1 then ds @ ''e'' @ ex
                    else take 1 ds @ ''.'' @ drop 1 ds @ ''e'' @ ex)
        in if m < 0 then CHR ''-'' # body else body)"

fun join :: "string \<Rightarrow> string list \<Rightarrow> string" where
  "join sep [] = []"
| "join sep [s] = s"
| "join sep (s # t # ss) = s @ sep @ join sep (t # ss)"

text \<open>The results of a list of conversions, or the first error among them.\<close>

fun sequence :: "('e + 'a) list \<Rightarrow> 'e + 'a list" where
  "sequence [] = Inr []"
| "sequence (Inl e # rs) = Inl e"
| "sequence (Inr x # rs) = (case sequence rs of Inl e \<Rightarrow> Inl e | Inr xs \<Rightarrow> Inr (x # xs))"

text \<open>
  The string a template literal puts in place of \<open>${v}\<close>, or the error it throws. An
  array joins its elements with commas, \<open>null\<close> and \<open>undefined\<close> elements giving
  the empty string, and fails where an element fails. An object of the response has no
  callable property of its own: when it has an own property \<open>toString\<close>, that property
  hides the inherited method, the inherited \<open>valueOf\<close> returns the object itself, and
  the conversion throws a \<open>TypeError\<close>; otherwise the inherited \<open>toString\<close> gives
  \<open>[object Object]\<close>.
\<close>

fun to_string :: "js_value \<Rightarrow> js_error + string" where
  "to_string JUndefined = Inr ''undefined''"
| "to_string JNull = Inr ''null''"
| "to_string (JBool b) = Inr (if b then ''true'' else ''false'')"
| "to_string (JNum i) = Inr (number_to_string i 0)"
| "to_string (JDec m e) = Inr (number_to_string m e)"
| "to_string JNaN = Inr ''NaN''"
| "to_string (JInfinity negative) = Inr (if negative then ''-Infinity'' else ''Infinity'')"
| "to_string (JStr s) = Inr s"
| "to_string (JArr xs) =
     (case sequence (map (\<lambda>x. if x = JUndefined \<or> x = JNull then Inr [] else to_string x) xs) of
        Inl e \<Rightarrow> Inl e
      | Inr ss \<Rightarrow> Inr (join '','' ss))"
| "to_string (JObj kvs) =
     (if map_of kvs ''toString'' \<noteq> None then Inl TypeError else Inr ''[object Object]'')"

text \<open>
  \<open>name\<close> from \<open>useParams()\<close> and \<open>process.env.REACT_APP_BACKEND_URL\<close> have the
  type \<open>string | undefined\<close>: \<open>None\<close> is \<open>undefined\<close>.
\<close>

fun template :: "string option \<Rightarrow> string" where
  "template None = ''undefined''"
| "template (Some s) = s"

subsection \<open>The column table\<close>

datatype jsx = Link (href: string) (link_text: string)

record GridRenderCellParams =
  row :: js_value

text \<open>A field of \<open>GridColDef\<close> that a column does not set is \<open>None\<close>: the widget's default applies.\<close>

record GridColDef =
  field :: string
  headerName :: string
  width :: "nat option"
  renderCell :: "(GridRenderCellParams \<Rightarrow> js_error + jsx) option"
  sortable :: "bool option"
  filterable :: "bool option"
  hideable :: "bool option"

definition taskTypeWidth :: nat where
  "taskTypeWidth = 250"

definition areaWidth :: nat where
  "areaWidth = 175"

text \<open>The \<open>renderCell\<close> of the last column: \<open><Link href={`evaluation-settings/${params.row.id}`}>view metrics</Link>\<close>.\<close>

definition view_metrics_cell :: "GridRenderCellParams \<Rightarrow> js_error + jsx" where
  "view_metrics_cell params =
     (case get_prop (row params) ''id'' of
        Inl e \<Rightarrow> Inl e
      | Inr v \<Rightarrow>
          (case to_string v of
             Inl e \<Rightarrow> Inl e
           | Inr s \<Rightarrow> Inr (Link (''evaluation-settings/'' @ s) ''view metrics'')))"

definition columns :: "GridColDef list" where
  "columns =
     [\<lparr>field = ''dataset_name'', headerName = ''Dataset'',
       width = None, renderCell = None,
       sortable = None, filterable = None, hideable = None\<rparr>,
      \<lparr>field = ''model_pred_task_type'', headerName = ''Model prediction type'',
       width = Some taskTypeWidth, renderCell = None,
       sortable = None, filterable = None, hideable = None\<rparr>,
      \<lparr>field = ''dataset_gt_task_type'', headerName = ''Dataset annotation type'',
       width = Some taskTypeWidth, renderCell = None,
       sortable = None, filterable = None, hideable = None\<rparr>,
      \<lparr>field = ''min_area'', headerName = ''Min. area of objects'',
       width = Some areaWidth, renderCell = None,
       sortable = None, filterable = None, hideable = None\<rparr>,
      \<lparr>field = ''max_area'', headerName = ''Max. area of objects'',
       width = Some areaWidth, renderCell = None,
       sortable = None, filterable = None, hideable = None\<rparr>,
      \<lparr>field = '''', headerName = '''',
       width = None, renderCell = Some view_metrics_cell,
       sortable = Some False, filterable = Some False, hideable = Some False\<rparr>]"

definition has_fixed_width :: "GridColDef \<Rightarrow> bool" where
  "has_fixed_width c = (width c \<noteq> None)"

definition has_renderCell :: "GridColDef \<Rightarrow> bool" where
  "has_renderCell c = (renderCell c \<noteq> None)"




subsection \<open>What the component returns\<close>

datatype node =
    Typography (variant: string) (children: "string option")
  | H3 string
  | DataGrid (rows: js_value) (grid_columns: "GridColDef list") (pageSize: nat)
      (pageSizeOptions: "nat list") (disableRowSelectionOnClick: bool)

datatype view = Wrapper "node list"

text \<open>
  Lines 61 to 81: \<open>null\<close> (here \<open>None\<close>) when the state cell is falsy, the page
  otherwise. \<open>pageSize\<close> is \<open>initialState.pagination.paginationModel.pageSize\<close>.
\<close>

definition ModelDetailsPage_render :: "string option \<Rightarrow> js_value \<Rightarrow> view option" where
  "ModelDetailsPage_render n settings =
     (if \<not> truthy settings then None
      else Some (Wrapper
        [Typography ''h2'' n,
         H3 ''Evaluations'',
         DataGrid settings columns 5 [5] True]))"

subsection \<open>The hooks and the fetch\<close>

datatype http_method = GET | POST | PUT | PATCH | DELETE

record request =
  req_method :: http_method
  req_url :: string
  req_data :: "js_value option"
  req_params :: "(string \<times> string) list"

text \<open>\<open>axios.get(url)\<close> with no configuration: a GET with no body and no \<open>params\<close>.\<close>

definition axios_get :: "string \<Rightarrow> request" where
  "axios_get u = \<lparr>req_method = GET, req_url = u, req_data = None, req_params = []\<rparr>"

text \<open>Line 55; the first argument is \<open>process.env.REACT_APP_BACKEND_URL\<close>.\<close>

definition url :: "string option \<Rightarrow> string option \<Rightarrow> string" where
  "url backend n = template backend @ ''/models/'' @ template n @ ''/evaluation-settings''"

text \<open>
  The mounted component: the state cell, the route parameter of the latest render, the
  dependency array \<open>[url]\<close> of the effect as of the latest render, the requests issued so
  far in order, and the positions in that list of the requests whose promise is pending.
\<close>

record hooks =
  allEvalSettings :: js_value
  name :: "string option"
  deps :: "string list"
  requests :: "request list"
  in_flight :: "nat list"

text \<open>
  The first render: \<open>useState([])\<close> gives the empty array, and the effect of a mounting
  component always runs.
\<close>

definition mount :: "string option \<Rightarrow> string option \<Rightarrow> hooks" where
  "mount backend n =
     \<lparr>allEvalSettings = JArr [], name = n, deps = [url backend n],
      requests = [axios_get (url backend n)], in_flight = [0]\<rparr>"

text \<open>
  What can happen to the mounted component:
  \<^item> \<open>Render n\<close>: React renders it again with the route parameter \<open>n\<close>; the effect
    runs when the dependency array differs from the previous one;
  \<^item> \<open>Fulfil i d\<close>: the promise of request \<open>i\<close> fulfils with a response whose
    \<open>data\<close> is \<open>d\<close>, and the callback given to \<open>then\<close> calls
    \<open>setAllEvalSettings(response.data)\<close>;
  \<^item> \<open>Reject i\<close>: the promise of request \<open>i\<close> rejects; \<open>then\<close> was given no
    second callback and no \<open>catch\<close> follows, so nothing of the component runs.
  A promise settles once: an event for a request that is not pending changes nothing.
  The model covers the component from its mount until it is unmounted, in a production
  render: the second run of effects that React's strict mode adds in development is left
  out.
\<close>

datatype event = Render "string option" | Fulfil nat js_value | Reject nat

fun step :: "string option \<Rightarrow> hooks \<Rightarrow> event \<Rightarrow> hooks" where
  "step backend h (Render n) =
     (if [url backend n] = deps h then h\<lparr>name := n\<rparr>
      else h\<lparr>name := n, deps := [url backend n],
             requests := requests h @ [axios_get (url backend n)],
             in_flight := in_flight h @ [length (requests h)]\<rparr>)"
| "step backend h (Fulfil i d) =
     (if i \<in> set (in_flight h)
      then h\<lparr>allEvalSettings := d, in_flight := removeAll i (in_flight h)\<rparr>
      else h)"
| "step backend h (Reject i) =
     (if i \<in> set (in_flight h) then h\<lparr>in_flight := removeAll i (in_flight h)\<rparr> else h)"

definition run :: "string option \<Rightarrow> string option \<Rightarrow> event list \<Rightarrow> hooks" where
  "run backend n evs = foldl (step backend) (mount backend n) evs"

text \<open>What is on the screen: the component's return value at the latest render.\<close>

definition screen :: "hooks \<Rightarrow> view option" where
  "screen h = ModelDetailsPage_render (name h) (allEvalSettings h)"

text \<open>An event can occur when its promise is pending; a render can always occur.\<close>

fun enabled :: "hooks \<Rightarrow> event \<Rightarrow> bool" where
  "enabled h (Render n) = True"
| "enabled h (Fulfil i d) = (i \<in> set (in_flight h))"
| "enabled h (Reject i) = (i \<in> set (in_flight h))"

fun feasible :: "string option \<Rightarrow> hooks \<Rightarrow> event list \<Rightarrow> bool" where
  "feasible backend h [] = True"
| "feasible backend h (e # es) = (enabled h e \<and> feasible backend (step backend h e) es)"

text \<open>The response body of the latest fulfilment in a sequence of events, if there is one.\<close>

fun last_response :: "event list \<Rightarrow> js_value option" where
  "last_response [] = None"
| "last_response (Render n # es) = last_response es"
| "last_response (Reject i # es) = last_response es"
| "last_response (Fulfil i d # es) =
     (case last_response es of None \<Rightarrow> Some d | Some d' \<Rightarrow> Some d')"

text \<open>Whether an event is the settlement (fulfilment or rejection) of request \<open>i\<close>.\<close>

fun settles :: "nat \<Rightarrow> event \<Rightarrow> bool" where
  "settles i (Render n) = False"
| "settles i (Fulfil j d) = (j = i)"
| "settles i (Reject j) = (j = i)"





section \<open>Basic facts\<close>

lemma mount_sel [simp]:
  "allEvalSettings (mount b n) = JArr []"
  "name (mount b n) = n"
  "deps (mount b n) = [url b n]"
  "requests (mount b n) = [axios_get (url b n)]"
  "in_flight (mount b n) = [0]"
  by (simp_all add: mount_def)

text \<open>With the same backend, two identifiers give the same URL only when they print alike.\<close>

lemma url_eq: "(url b n = url b m) = (template n = template m)"
  by (simp add: url_def)

text \<open>The dependency array always holds the URL of the identifier of the latest render.\<close>

lemma deps_foldl:
  "deps h = [url b (name h)] \<Longrightarrow>
   deps (foldl (step b) h evs) = [url b (name (foldl (step b) h evs))]"
proof (induction evs arbitrary: h)
  case Nil
  then show ?case by simp
next
  case (Cons e evs)
  have "deps (step b h e) = [url b (name (step b h e))]"
    using Cons.prems by (cases e) auto
  then show ?case using Cons.IH by simp
qed

lemma deps_run: "deps (run b n evs) = [url b (name (run b n evs))]"
  unfolding run_def by (rule deps_foldl) simp

text \<open>The state cell after a sequence of events that can occur, from any state.\<close>

lemma stored_foldl:
  "feasible b h evs \<Longrightarrow>
   allEvalSettings (foldl (step b) h evs) =
     (case last_response evs of None \<Rightarrow> allEvalSettings h | Some d \<Rightarrow> d)"
proof (induction evs arbitrary: h)
  case Nil
  then show ?case by simp
next
  case (Cons e evs)
  then show ?case
    by (cases e) (auto split: option.splits)
qed

lemma stored_foldl_no_response:
  "last_response evs = None \<Longrightarrow>
   allEvalSettings (foldl (step b) h evs) = allEvalSettings h"
proof (induction evs arbitrary: h)
  case Nil
  then show ?case by simp
next
  case (Cons e evs)
  then show ?case
    by (cases e) (auto split: option.splits)
qed

text \<open>Only its own settlement takes a request out of the pending ones.\<close>

lemma in_flight_step:
  "i \<in> set (in_flight h) \<Longrightarrow> \<not> settles i e \<Longrightarrow> i \<in> set (in_flight (step b h e))"
  by (cases e) auto

lemma in_flight_foldl:
  "i \<in> set (in_flight h) \<Longrightarrow> filter (settles i) evs = [] \<Longrightarrow>
   i \<in> set (in_flight (foldl (step b) h evs))"
proof (induction evs arbitrary: h)
  case Nil
  then show ?case by simp
next
  case (Cons e evs)
  from Cons.prems(2) have e: "\<not> settles i e" and rest: "filter (settles i) evs = []"
    by (auto split: if_splits)
  from Cons.prems(1) e have "i \<in> set (in_flight (step b h e))"
    by (rule in_flight_step)
  then show ?case using Cons.IH rest by simp
qed

















section \<open>The claims\<close>

subsection \<open>C1: a fetch that fails\<close>

text \<open>
  A failure is not always met by an empty list. Model \<open>a\<close> is shown and its fetch
  succeeds with one row; the identifier changes to \<open>b\<close>, and the fetch for \<open>b\<close>
  fails. The state cell still holds the row of \<open>a\<close>, and the grid shows it under the
  heading \<open>b\<close>.
\<close>

theorem failed_fetch_after_success_counterexample:
  "feasible (Some ''B'') (mount (Some ''B'') (Some ''a''))
     [Fulfil 0 (JArr [JObj [(''id'', JNum 1)]]), Render (Some ''b''), Reject 1]
   \<and> allEvalSettings (run (Some ''B'') (Some ''a'')
       [Fulfil 0 (JArr [JObj [(''id'', JNum 1)]]), Render (Some ''b''), Reject 1]) \<noteq> JArr []
   \<and> screen (run (Some ''B'') (Some ''a'')
       [Fulfil 0 (JArr [JObj [(''id'', JNum 1)]]), Render (Some ''b''), Reject 1]) =
       Some (Wrapper [Typography ''h2'' (Some ''b''), H3 ''Evaluations'',
                      DataGrid (JArr [JObj [(''id'', JNum 1)]]) columns 5 [5] True])"
  by (simp add: run_def url_def screen_def ModelDetailsPage_render_def)

text \<open>
  C1, as amended. For every fetch that fails, no handler observes the error: the
  rejection only takes the request out of the pending ones, and leaves the state cell,
  the requests issued (there is no retry) and the rendered page exactly as they were, so
  no error indicator appears. When no fetch has been fulfilled so far, the state cell is
  still the initial empty list and the page is the grid with no rows.
\<close>

theorem failed_fetch_leaves_view:
  "step backend h (Reject i) = h\<lparr>in_flight := removeAll i (in_flight h)\<rparr>
   \<and> allEvalSettings (step backend h (Reject i)) = allEvalSettings h
   \<and> requests (step backend h (Reject i)) = requests h
   \<and> screen (step backend h (Reject i)) = screen h
   \<and> (last_response evs = None \<longrightarrow>
        allEvalSettings (run backend n evs) = JArr []
        \<and> screen (run backend n evs) =
            Some (Wrapper [Typography ''h2'' (name (run backend n evs)), H3 ''Evaluations'',
                           DataGrid (JArr []) columns 5 [5] True]))"
proof -
  have "last_response evs = None \<Longrightarrow> allEvalSettings (run backend n evs) = JArr []"
    using stored_foldl_no_response [of evs backend "mount backend n"]
    by (simp add: run_def)
  then show ?thesis
    by (simp add: screen_def ModelDetailsPage_render_def)
qed

theorem failed_fetch_leaves_view_witness:
  "last_response [Reject 0] = None
   \<and> allEvalSettings (run (Some ''B'') (Some ''a'') [Reject 0]) = JArr []
   \<and> screen (run (Some ''B'') (Some ''a'') [Reject 0]) =
       Some (Wrapper [Typography ''h2'' (Some ''a''), H3 ''Evaluations'',
                      DataGrid (JArr []) columns 5 [5] True])"
proof -
  have a: "last_response [Reject 0] = None"
    by simp
  have b: "name (run (Some ''B'') (Some ''a'') [Reject 0]) = Some ''a''"
    by (simp add: run_def)
  from a failed_fetch_leaves_view
    [of "Some ''B''" "mount (Some ''B'') (Some ''a'')" 0 "[Reject 0]" "Some ''a''"]
  have "allEvalSettings (run (Some ''B'') (Some ''a'') [Reject 0]) = JArr []
        \<and> screen (run (Some ''B'') (Some ''a'') [Reject 0]) =
            Some (Wrapper [Typography ''h2'' (name (run (Some ''B'') (Some ''a'') [Reject 0])),
                           H3 ''Evaluations'', DataGrid (JArr []) columns 5 [5] True])"
    by blast
  with a b show ?thesis by simp
qed

subsection \<open>C2: the state cell holds the latest response\<close>

text \<open>
  C2. At every point of the component's lifetime (after every sequence of events that
  can occur since the mount), the state cell is the initial empty list when no fetch has
  been fulfilled, and otherwise exactly the response body of the latest fulfilment. A
  fulfilment replaces the cell by the body, whatever the cell held; a rejection and a
  render leave it as it is.
\<close>

theorem state_is_last_response:
  assumes "feasible backend (mount backend n) evs"
  shows "allEvalSettings (run backend n evs) =
           (case last_response evs of None \<Rightarrow> JArr [] | Some d \<Rightarrow> d)
       \<and> allEvalSettings (step backend h (Fulfil i d)) =
           (if enabled h (Fulfil i d) then d else allEvalSettings h)
       \<and> allEvalSettings (step backend h (Reject i)) = allEvalSettings h
       \<and> allEvalSettings (step backend h (Render m)) = allEvalSettings h"
  using stored_foldl [OF assms] by (simp add: run_def split: option.splits)

theorem state_is_last_response_witness:
  "feasible (Some ''B'') (mount (Some ''B'') (Some ''a''))
     [Fulfil 0 (JArr [JNum 1]), Render (Some ''b''), Fulfil 1 (JArr [JNum 2, JNum 3]),
      Render (Some ''c''), Reject 2]
   \<and> allEvalSettings (run (Some ''B'') (Some ''a'')
     [Fulfil 0 (JArr [JNum 1]), Render (Some ''b''), Fulfil 1 (JArr [JNum 2, JNum 3]),
      Render (Some ''c''), Reject 2])
     = JArr [JNum 2, JNum 3]"
proof -
  have f: "feasible (Some ''B'') (mount (Some ''B'') (Some ''a''))
     [Fulfil 0 (JArr [JNum 1]), Render (Some ''b''), Fulfil 1 (JArr [JNum 2, JNum 3]),
      Render (Some ''c''), Reject 2]"
    by (simp add: url_def)
  have l: "last_response
     [Fulfil 0 (JArr [JNum 1]), Render (Some ''b''), Fulfil 1 (JArr [JNum 2, JNum 3]),
      Render (Some ''c''), Reject 2] = Some (JArr [JNum 2, JNum 3])"
    by simp
  have "allEvalSettings (run (Some ''B'') (Some ''a'')
     [Fulfil 0 (JArr [JNum 1]), Render (Some ''b''), Fulfil 1 (JArr [JNum 2, JNum 3]),
      Render (Some ''c''), Reject 2])
     = JArr [JNum 2, JNum 3]"
    using state_is_last_response [OF f, THEN conjunct1] by (simp only: l option.case)
  with f show ?thesis by blast
qed

subsection \<open>C3: one GET per URL\<close>

text \<open>
  A change of the identifier does not always issue a request. The component is mounted
  with no \<open>name\<close> parameter, and the identifier then becomes the string
  \<open>undefined\<close>: the identifier has changed, the URL has not, and the one request of
  the mount stays the only one.
\<close>

theorem undefined_identifier_change_counterexample:
  "name (mount (Some ''B'') None) = None
   \<and> name (step (Some ''B'') (mount (Some ''B'') None) (Render (Some ''undefined'')))
       = Some ''undefined''
   \<and> requests (step (Some ''B'') (mount (Some ''B'') None) (Render (Some ''undefined'')))
       = requests (mount (Some ''B'') None)
   \<and> length (requests (mount (Some ''B'') None)) = 1"
  by (simp add: url_def)

text \<open>
  C3, as amended. The first render issues exactly one request, and so does every later
  render whose URL differs from that of the render before; a render with the same URL
  issues none. The request is a GET with no body and no query parameters, and its URL is
  the backend base URL followed by \<open>/models/\<close>, the identifier and
  \<open>/evaluation-settings\<close>, where a base URL or an identifier that is undefined appears
  as the text \<open>undefined\<close>. Two defined identifiers give the same URL only when they
  are equal, so every change of the identifier issues exactly one request, except a change
  between the undefined identifier and the identifier \<open>undefined\<close>.
\<close>

theorem one_get_per_url:
  "requests (mount backend n) =
     [\<lparr>req_method = GET,
       req_url = template backend @ ''/models/'' @ template n @ ''/evaluation-settings'',
       req_data = None, req_params = []\<rparr>]
   \<and> requests (step backend (run backend n0 evs) (Render n)) =
       (if template n = template (name (run backend n0 evs))
        then requests (run backend n0 evs)
        else requests (run backend n0 evs) @
          [\<lparr>req_method = GET,
            req_url = template backend @ ''/models/'' @ template n @ ''/evaluation-settings'',
            req_data = None, req_params = []\<rparr>])
   \<and> (template (Some a) = template (Some b)) = (a = b)
   \<and> (template None = template (Some a)) = (a = ''undefined'')"
proof -
  have d: "deps (run backend n0 evs) = [url backend (name (run backend n0 evs))]"
    by (rule deps_run)
  have e: "(url backend n = url backend (name (run backend n0 evs))) =
           (template n = template (name (run backend n0 evs)))"
    by (rule url_eq)
  have u: "url backend n = template backend @ ''/models/'' @ template n @ ''/evaluation-settings''"
    by (simp add: url_def)
  have "requests (step backend (run backend n0 evs) (Render n)) =
       (if template n = template (name (run backend n0 evs))
        then requests (run backend n0 evs)
        else requests (run backend n0 evs) @ [axios_get (url backend n)])"
    using d e by simp
  then show ?thesis
    by (auto simp: axios_get_def u)
qed

theorem one_get_per_url_witness:
  "requests (mount (Some ''http://localhost:8000'') (Some ''resnet50'')) =
       [\<lparr>req_method = GET,
         req_url = ''http://localhost:8000/models/resnet50/evaluation-settings'',
         req_data = None, req_params = []\<rparr>]
   \<and> requests (step (Some ''http://localhost:8000'')
        (run (Some ''http://localhost:8000'') (Some ''resnet50'') [Fulfil 0 (JArr [])])
        (Render (Some ''yolo''))) =
       [\<lparr>req_method = GET,
         req_url = ''http://localhost:8000/models/resnet50/evaluation-settings'',
         req_data = None, req_params = []\<rparr>,
        \<lparr>req_method = GET,
         req_url = ''http://localhost:8000/models/yolo/evaluation-settings'',
         req_data = None, req_params = []\<rparr>]
   \<and> requests (step (Some ''http://localhost:8000'')
        (run (Some ''http://localhost:8000'') (Some ''resnet50'') [Fulfil 0 (JArr [])])
        (Render (Some ''resnet50''))) =
       [\<lparr>req_method = GET,
         req_url = ''http://localhost:8000/models/resnet50/evaluation-settings'',
         req_data = None, req_params = []\<rparr>]"
proof -
  have a: "name (run (Some ''http://localhost:8000'') (Some ''resnet50'') [Fulfil 0 (JArr [])])
     = Some ''resnet50''"
    by (simp add: run_def)
  have c: "requests (run (Some ''http://localhost:8000'') (Some ''resnet50'') [Fulfil 0 (JArr [])]) =
       [\<lparr>req_method = GET,
         req_url = ''http://localhost:8000/models/resnet50/evaluation-settings'',
         req_data = None, req_params = []\<rparr>]"
    by (simp add: run_def url_def axios_get_def)
  note t = one_get_per_url [of "Some ''http://localhost:8000''" _ "Some ''resnet50''"
      "[Fulfil 0 (JArr [])]"]
  have m: "requests (mount (Some ''http://localhost:8000'') (Some ''resnet50'')) =
       [\<lparr>req_method = GET,
         req_url = ''http://localhost:8000/models/resnet50/evaluation-settings'',
         req_data = None, req_params = []\<rparr>]"
    using t [of "Some ''resnet50''", THEN conjunct1] by simp
  have y: "requests (step (Some ''http://localhost:8000'')
        (run (Some ''http://localhost:8000'') (Some ''resnet50'') [Fulfil 0 (JArr [])])
        (Render (Some ''yolo''))) =
       requests (run (Some ''http://localhost:8000'') (Some ''resnet50'') [Fulfil 0 (JArr [])]) @
       [\<lparr>req_method = GET,
         req_url = ''http://localhost:8000/models/yolo/evaluation-settings'',
         req_data = None, req_params = []\<rparr>]"
    using t [of "Some ''yolo''", THEN conjunct2, THEN conjunct1] a by simp
  have r: "requests (step (Some ''http://localhost:8000'')
        (run (Some ''http://localhost:8000'') (Some ''resnet50'') [Fulfil 0 (JArr [])])
        (Render (Some ''resnet50''))) =
       requests (run (Some ''http://localhost:8000'') (Some ''resnet50'') [Fulfil 0 (JArr [])])"
    using t [of "Some ''resnet50''", THEN conjunct2, THEN conjunct1] a by simp
  from m y r c show ?thesis by simp
qed

subsection \<open>C4: column widths\<close>

text \<open>The columns that set a width are not two.\<close>

theorem fixed_width_columns_not_two: "length (filter has_fixed_width columns) \<noteq> 2"
  by (simp add: columns_def has_fixed_width_def)

text \<open>
  C4, as amended. Exactly four columns are given fixed pixel widths: the two task type
  columns 250 and the two area columns 175 (two distinct values). The other two, the
  dataset column and the link column, set no width and use the widget's default.
\<close>

theorem four_columns_have_fixed_widths:
  "map field (filter has_fixed_width columns) =
     [''model_pred_task_type'', ''dataset_gt_task_type'', ''min_area'', ''max_area'']
   \<and> map width columns = [None, Some 250, Some 250, Some 175, Some 175, None]"
  by (simp add: columns_def has_fixed_width_def taskTypeWidth_def areaWidth_def)

subsection \<open>C5: the cells of a row\<close>




subsection \<open>C6: the link column\<close>

text \<open>
  C6. The table has exactly one synthesized column, the one with a \<open>renderCell\<close>
  (its field is the empty string), and it is declared not sortable, not filterable and
  not hideable. The table is a constant of the module: no event changes it.
\<close>

theorem link_column_flags:
  "map field (filter has_renderCell columns) = ['''']
   \<and> map sortable (filter has_renderCell columns) = [Some False]
   \<and> map filterable (filter has_renderCell columns) = [Some False]
   \<and> map hideable (filter has_renderCell columns) = [Some False]"
  by (simp add: columns_def has_renderCell_def)

subsection \<open>C7: pagination\<close>

text \<open>
  C7. Whenever the page is rendered, its grid (the third child of the wrapper) is
  configured with an initial page size of 5, and the page size options offered are the
  value 5 alone.
\<close>

theorem page_size_fixed_at_5:
  "ModelDetailsPage_render n v = Some (Wrapper ns) \<Longrightarrow>
   pageSize (ns ! 2) = 5 \<and> pageSizeOptions (ns ! 2) = [5] \<and> set (pageSizeOptions (ns ! 2)) = {5}"
  by (auto simp: ModelDetailsPage_render_def split: if_splits)

theorem page_size_fixed_at_5_witness:
  "ModelDetailsPage_render (Some ''resnet50'') (JArr []) =
     Some (Wrapper [Typography ''h2'' (Some ''resnet50''), H3 ''Evaluations'',
                    DataGrid (JArr []) columns 5 [5] True])
   \<and> pageSize (DataGrid (JArr []) columns 5 [5] True) = 5
   \<and> set (pageSizeOptions (DataGrid (JArr []) columns 5 [5] True)) = {5}"
proof -
  have r: "ModelDetailsPage_render (Some ''resnet50'') (JArr []) =
     Some (Wrapper [Typography ''h2'' (Some ''resnet50''), H3 ''Evaluations'',
                    DataGrid (JArr []) columns 5 [5] True])"
    by (simp add: ModelDetailsPage_render_def)
  show ?thesis using r page_size_fixed_at_5 [OF r] by simp
qed

subsection \<open>C8: responses of earlier requests\<close>

text \<open>
  C8. No request is cancelled: a request that is pending stays pending through every
  sequence of events that does not settle it, renders with other identifiers and the
  settlements of other requests included. When it is fulfilled after them, its handler
  writes its response to the state cell, and that response is what the page shows under
  the identifier of the latest render, whichever identifier the request was issued for:
  the last response to resolve wins.
\<close>

theorem stale_response_is_written:
  assumes "i \<in> set (in_flight h)" and "filter (settles i) evs = []"
  shows "i \<in> set (in_flight (foldl (step backend) h evs))
       \<and> allEvalSettings (step backend (foldl (step backend) h evs) (Fulfil i d)) = d
       \<and> screen (step backend (foldl (step backend) h evs) (Fulfil i d)) =
           ModelDetailsPage_render (name (foldl (step backend) h evs)) d"
  using in_flight_foldl [OF assms] by (simp add: screen_def)

theorem stale_response_is_written_witness:
  "0 \<in> set (in_flight (mount (Some ''B'') (Some ''a'')))
   \<and> filter (settles 0) [Render (Some ''b''), Fulfil 1 (JArr [JNum 2])] = []
   \<and> name (foldl (step (Some ''B'')) (mount (Some ''B'') (Some ''a''))
        [Render (Some ''b''), Fulfil 1 (JArr [JNum 2])]) = Some ''b''
   \<and> req_url (requests (foldl (step (Some ''B'')) (mount (Some ''B'') (Some ''a''))
        [Render (Some ''b''), Fulfil 1 (JArr [JNum 2])]) ! 0) = ''B/models/a/evaluation-settings''
   \<and> 0 \<in> set (in_flight (foldl (step (Some ''B'')) (mount (Some ''B'') (Some ''a''))
        [Render (Some ''b''), Fulfil 1 (JArr [JNum 2])]))
   \<and> allEvalSettings (step (Some ''B'')
        (foldl (step (Some ''B'')) (mount (Some ''B'') (Some ''a''))
           [Render (Some ''b''), Fulfil 1 (JArr [JNum 2])])
        (Fulfil 0 (JArr [JNum 1]))) = JArr [JNum 1]"
proof -
  have a: "0 \<in> set (in_flight (mount (Some ''B'') (Some ''a'')))"
    by simp
  have b: "filter (settles 0) [Render (Some ''b''), Fulfil 1 (JArr [JNum 2])] = []"
    by simp
  have c: "name (foldl (step (Some ''B'')) (mount (Some ''B'') (Some ''a''))
        [Render (Some ''b''), Fulfil 1 (JArr [JNum 2])]) = Some ''b''"
    by (simp add: url_def)
  have d: "req_url (requests (foldl (step (Some ''B'')) (mount (Some ''B'') (Some ''a''))
        [Render (Some ''b''), Fulfil 1 (JArr [JNum 2])]) ! 0) = ''B/models/a/evaluation-settings''"
    by (simp add: url_def axios_get_def)
  from a b c d stale_response_is_written [OF a b, of "Some ''B''" "JArr [JNum 1]"]
  show ?thesis by blast
qed

subsection \<open>C9: a falsy response body\<close>

text \<open>
  C9. When a pending fetch is fulfilled with a falsy body, such as \<open>null\<close> or
  \<open>undefined\<close>, the component stores that value and then returns \<open>null\<close>: nothing is
  rendered. For every truthy value of the state cell, the empty array included, it returns
  the full page with the grid.
\<close>

theorem falsy_body_renders_null:
  "(i \<in> set (in_flight h) \<and> \<not> truthy d \<longrightarrow>
      allEvalSettings (step backend h (Fulfil i d)) = d
      \<and> screen (step backend h (Fulfil i d)) = None)
   \<and> (truthy v \<longrightarrow>
      ModelDetailsPage_render n v =
        Some (Wrapper [Typography ''h2'' n, H3 ''Evaluations'', DataGrid v columns 5 [5] True]))
   \<and> \<not> truthy JNull \<and> \<not> truthy JUndefined \<and> truthy (JArr [])"
  by (simp add: screen_def ModelDetailsPage_render_def)

theorem falsy_body_renders_null_witness:
  "0 \<in> set (in_flight (mount (Some ''B'') (Some ''a''))) \<and> \<not> truthy JNull
   \<and> allEvalSettings (step (Some ''B'') (mount (Some ''B'') (Some ''a'')) (Fulfil 0 JNull)) = JNull
   \<and> screen (step (Some ''B'') (mount (Some ''B'') (Some ''a'')) (Fulfil 0 JNull)) = None
   \<and> truthy (JArr [])
   \<and> ModelDetailsPage_render (Some ''a'') (JArr []) =
       Some (Wrapper [Typography ''h2'' (Some ''a''), H3 ''Evaluations'',
                      DataGrid (JArr []) columns 5 [5] True])"
proof -
  have a: "0 \<in> set (in_flight (mount (Some ''B'') (Some ''a'')))"
    by simp
  have b: "\<not> truthy JNull"
    by simp
  have c: "truthy (JArr [])"
    by simp
  from a b c falsy_body_renders_null
    [of 0 "mount (Some ''B'') (Some ''a'')" JNull "Some ''B''" "JArr []" "Some ''a''"]
  show ?thesis by blast
qed

subsection \<open>C10: the heading\<close>

text \<open>
  C10. Whenever the page is rendered, its first child is the \<open>h2\<close> heading, and the
  heading's content is the route parameter \<open>name\<close> exactly as the router gave it.
\<close>

theorem heading_is_raw_name:
  "ModelDetailsPage_render n v = Some (Wrapper ns) \<Longrightarrow>
   hd ns = Typography ''h2'' n \<and> children (hd ns) = n"
  by (auto simp: ModelDetailsPage_render_def split: if_splits)

theorem heading_is_raw_name_witness:
  "ModelDetailsPage_render (Some ''ResNet 50/v2'') (JArr []) =
     Some (Wrapper [Typography ''h2'' (Some ''ResNet 50/v2''), H3 ''Evaluations'',
                    DataGrid (JArr []) columns 5 [5] True])
   \<and> children (hd [Typography ''h2'' (Some ''ResNet 50/v2''), H3 ''Evaluations'',
                    DataGrid (JArr []) columns 5 [5] True]) = Some ''ResNet 50/v2''"
proof -
  have r: "ModelDetailsPage_render (Some ''ResNet 50/v2'') (JArr []) =
     Some (Wrapper [Typography ''h2'' (Some ''ResNet 50/v2''), H3 ''Evaluations'',
                    DataGrid (JArr []) columns 5 [5] True])"
    by (simp add: ModelDetailsPage_render_def)
  show ?thesis using r heading_is_raw_name [OF r] by simp
qed

end
